theory Spec2Isabelle
  imports Complex_Main
begin

section \<open>The Hikvision camera adapter (unifi/cams/hikvision.py)\<close>

text \<open>
  The adapter is one Python class, \<open>HikvisionCam\<close>. Its methods talk to the camera
  through the \<open>hikvisionapi\<close> client and to the host through the two callbacks of its
  base class. Both collaborators live outside the file, so the model takes them as
  parameters: a \<open>device\<close> record holds what the camera answers to each request, a
  \<open>host\<close> record holds what each callback does when it is awaited. Exceptions are
  values of the datatype \<open>exn\<close>; a method that can raise returns \<open>exn + 'a\<close>,
  together with the object as it is left behind.
\<close>

subsection \<open>Exceptions and Python values\<close>

datatype exn =
    HTTPError nat
  | ConnectionError
  | Timeout
  | RetryableError
  | KeyError string
  | ValueError
  | OSError

text \<open>
  \<open>except requests.exceptions.HTTPError\<close> catches exactly the exceptions built by
  \<open>HTTPError\<close>; \<open>ConnectionError\<close> and \<open>Timeout\<close> are its siblings under
  \<open>RequestException\<close>, and \<open>RetryableError\<close> is the class of \<open>unifi.core\<close>.
\<close>

fun is_HTTPError :: "exn \<Rightarrow> bool" where
  "is_HTTPError (HTTPError code) = True"
| "is_HTTPError _ = False"

text \<open>
  A value stored in a dictionary that the code passes to \<open>int(...)\<close>: either \<open>int\<close>
  accepts it and yields the given integer, or it raises \<open>ValueError\<close>.
\<close>

datatype pyval = IntLike int | Unconvertible

fun py_int :: "pyval \<Rightarrow> exn + int" where
  "py_int (IntLike n) = Inr n"
| "py_int Unconvertible = Inl ValueError"

text \<open>\<open>int(d[k])\<close>: the subscript raises \<open>KeyError\<close> on a missing key.\<close>

definition int_item :: "(string \<rightharpoonup> pyval) \<Rightarrow> string \<Rightarrow> exn + int" where
  "int_item d k = (case d k of None \<Rightarrow> Inl (KeyError k) | Some v \<Rightarrow> py_int v)"

text \<open>
  \<open>int(x)\<close> on a float truncates toward zero. The quotients below are Python true
  divisions of integers; they are modelled by the exact quotient. On the ranges of the
  data model (percentages 0 to 100, azimuth 0 to 3600, zoom 0 to 40) the double quotient
  truncates to the same integer; for operands of very large magnitude it need not.
\<close>

definition int_of_float :: "real \<Rightarrow> int" where
  "int_of_float x = (if 0 \<le> x then \<lfloor>x\<rfloor> else \<lceil>x\<rceil>)"

subsection \<open>Unit conversions\<close>

text \<open>Lines 79 to 81 of \<open>change_video_settings\<close>.\<close>

definition tilt_of :: "int \<Rightarrow> int" where
  "tilt_of brightness = int_of_float (real_of_int (900 * brightness) / 100)"

definition pan_of :: "int \<Rightarrow> int" where
  "pan_of contrast = int_of_float (real_of_int (3600 * contrast) / 100)"

definition zoom_of :: "int \<Rightarrow> int" where
  "zoom_of hue = int_of_float (real_of_int (40 * hue) / 100)"

text \<open>Lines 69, 71 and 73 of \<open>get_video_settings\<close>.\<close>

definition percent_of_azimuth :: "int \<Rightarrow> int" where
  "percent_of_azimuth azimuth = int_of_float (real_of_int (100 * azimuth) / 3600)"

definition percent_of_zoom :: "int \<Rightarrow> int" where
  "percent_of_zoom zoom = int_of_float (real_of_int (100 * zoom) / 40)"

text \<open>The rounding the specification names for the write direction.\<close>

definition round_half_up :: "real \<Rightarrow> int" where
  "round_half_up x = \<lfloor>x + 1 / 2\<rfloor>"

subsection \<open>The camera, the host and the adapter object\<close>

record ptz_data =
  absoluteZoom :: int
  azimuth :: int
  elevation :: int

datatype request =
    GetPicture
  | GetCapabilities
  | GetStatus
  | PutAbsolute ptz_data

text \<open>
  What the client returns for each request of the file. \<open>status\<close> is the dictionary
  under \<open>["PTZStatus"]["AbsoluteHigh"]\<close> of the answer. \<open>picture\<close> is the response
  body as \<open>iter_content\<close> yields it: the chunks, then the exception that ends the
  iteration early, if any.
\<close>

record device =
  capabilities :: "exn + unit"
  status :: "exn + (string \<rightharpoonup> pyval)"
  absolute :: "ptz_data \<Rightarrow> exn + unit"
  picture :: "exn + (string list \<times> exn option)"

text \<open>
  The callbacks of the base class, \<open>trigger_motion_start\<close> and
  \<open>trigger_motion_stop\<close>, awaited at a given time: \<open>None\<close> when the call returns,
  the exception when it raises. \<open>start_yields\<close> says how the start callback awaited
  at a given time spends its time: \<open>None\<close> when it completes without yielding to the
  event loop, \<open>Some delay\<close> when it yields and completes \<open>delay\<close> seconds later.
\<close>

record host =
  trigger_motion_start :: "real \<Rightarrow> exn option"
  trigger_motion_stop :: "real \<Rightarrow> exn option"
  start_yields :: "real \<Rightarrow> real option"

datatype edge = MotionStart | MotionStop

text \<open>
  The attributes of \<open>HikvisionCam\<close> set in \<open>__init__\<close>, followed by what the object
  has done to its surroundings: the requests sent to the camera, the files written, the
  deadlines of the timers pending on the event loop (\<open>call_later\<close> keeps them ordered by
  deadline), the host callbacks invoked with the time of each call, and the
  \<open>_trigger_motion_start\<close> coroutines suspended at their \<open>await\<close>, each with the time at
  which its callback completes and the callback's outcome, ordered by that time.
\<close>

record cam =
  snapshot_dir :: string
  motion_timeout :: real
  motion_counter :: int
  ptz_supported :: bool
  sent :: "request list"
  files :: "string \<rightharpoonup> string"
  timers :: "real list"
  calls :: "(edge \<times> real) list"
  parked :: "(real \<times> exn option) list"

subsection \<open>Construction and the capability probe\<close>

definition check_ptz_support :: "device \<Rightarrow> cam \<Rightarrow> (exn + bool) \<times> cam" where
  "check_ptz_support dev self =
     (let self' = self\<lparr>sent := sent self @ [GetCapabilities]\<rparr>
      in case capabilities dev of
           Inr _ \<Rightarrow> (Inr True, self')
         | Inl e \<Rightarrow> if is_HTTPError e then (Inr False, self') else (Inl e, self'))"

text \<open>
  \<open>__init__\<close>; \<open>tmpdir\<close> is the directory \<open>tempfile.mkdtemp()\<close> has just created,
  which holds no file yet. \<open>attributes\<close> is the object as the assignments before the
  probe leave it (\<open>ptz_supported\<close> is assigned from the probe's result).
\<close>

definition attributes :: "string \<Rightarrow> cam" where
  "attributes tmpdir =
     \<lparr>snapshot_dir = tmpdir, motion_timeout = 5, motion_counter = 0,
      ptz_supported = False, sent = [], files = Map.empty, timers = [], calls = [],
      parked = []\<rparr>"

definition init :: "string \<Rightarrow> device \<Rightarrow> exn + cam" where
  "init tmpdir dev =
     (case check_ptz_support dev (attributes tmpdir) of
        (Inl e, _) \<Rightarrow> Inl e
      | (Inr b, self') \<Rightarrow> Inr (self'\<lparr>ptz_supported := b\<rparr>))"

subsection \<open>Video settings\<close>

definition get_video_settings ::
  "device \<Rightarrow> cam \<Rightarrow> (exn + (string \<rightharpoonup> int)) \<times> cam" where
  "get_video_settings dev self =
     (if ptz_supported self then
        (let self' = self\<lparr>sent := sent self @ [GetStatus]\<rparr>
         in case status dev of
              Inl e \<Rightarrow> (Inl e, self')
            | Inr r \<Rightarrow>
               (case int_item r ''azimuth'' of Inl e \<Rightarrow> (Inl e, self') | Inr a1 \<Rightarrow>
                case int_item r ''azimuth'' of Inl e \<Rightarrow> (Inl e, self') | Inr a2 \<Rightarrow>
                case int_item r ''absoluteZoom'' of Inl e \<Rightarrow> (Inl e, self') | Inr z \<Rightarrow>
                  (Inr [''brightness'' \<mapsto> percent_of_azimuth a1,
                        ''contrast'' \<mapsto> percent_of_azimuth a2,
                        ''hue'' \<mapsto> percent_of_zoom z], self')))
      else (Inr Map.empty, self))"

definition change_video_settings ::
  "device \<Rightarrow> (string \<rightharpoonup> pyval) \<Rightarrow> cam \<Rightarrow> (exn + unit) \<times> cam" where
  "change_video_settings dev options self =
     (if ptz_supported self then
        (case int_item options ''brightness'' of Inl e \<Rightarrow> (Inl e, self) | Inr b \<Rightarrow>
         case int_item options ''contrast'' of Inl e \<Rightarrow> (Inl e, self) | Inr c \<Rightarrow>
         case int_item options ''hue'' of Inl e \<Rightarrow> (Inl e, self) | Inr h \<Rightarrow>
           (let tilt = tilt_of b; pan = pan_of c; zoom = zoom_of h;
                req = \<lparr>absoluteZoom = zoom, azimuth = pan, elevation = tilt\<rparr>
            in (absolute dev req, self\<lparr>sent := sent self @ [PutAbsolute req]\<rparr>)))
      else (Inr (), self))"

text \<open>
  The \<open>AbsoluteHigh\<close> dictionary of a camera that reports the position it was last
  moved to.
\<close>

definition reported :: "ptz_data \<Rightarrow> (string \<rightharpoonup> pyval)" where
  "reported p = [''azimuth'' \<mapsto> IntLike (azimuth p),
                 ''elevation'' \<mapsto> IntLike (elevation p),
                 ''absoluteZoom'' \<mapsto> IntLike (absoluteZoom p)]"

subsection \<open>Snapshots\<close>

text \<open>\<open>Path(dir, name)\<close> for a directory path without a trailing separator.\<close>

definition Path :: "string \<Rightarrow> string \<Rightarrow> string" where
  "Path dir name = dir @ ''/'' @ name"

text \<open>The loop over \<open>iter_content\<close>: every non-empty chunk is appended to the file.\<close>

fun write_chunks :: "string list \<Rightarrow> string \<Rightarrow> string" where
  "write_chunks [] f = f"
| "write_chunks (chunk # rest) f =
     write_chunks rest (if chunk \<noteq> [] then f @ chunk else f)"

definition get_snapshot :: "device \<Rightarrow> cam \<Rightarrow> (exn + string) \<times> cam" where
  "get_snapshot dev self =
     (let img_file = Path (snapshot_dir self) ''screen.jpg'';
          self1 = self\<lparr>sent := sent self @ [GetPicture]\<rparr>
      in case picture dev of
           Inl e \<Rightarrow> (Inl e, self1)
         | Inr (chunks, failure) \<Rightarrow>
            (let self2 = self1\<lparr>files := (files self1)(img_file \<mapsto> write_chunks chunks [])\<rparr>
             in case failure of
                  Some e \<Rightarrow> (Inl e, self2)
                | None \<Rightarrow> (Inr img_file, self2)))"

subsection \<open>The motion debouncer\<close>

text \<open>
  \<open>_trigger_motion_start\<close> and \<open>_trigger_motion_stop\<close> of the source (an Isabelle name
  cannot begin with an underscore). Each is the coroutine run in one piece on the event
  loop at the time \<open>now\<close>, as it runs when the awaited host callback completes without
  yielding to the loop. When the callback raises, the statements after the \<open>await\<close> are
  not executed and the exception leaves the coroutine.
\<close>

definition priv_trigger_motion_start :: "host \<Rightarrow> real \<Rightarrow> cam \<Rightarrow> exn option \<times> cam" where
  "priv_trigger_motion_start h now self =
     (let (raised, self1) =
            (if motion_counter self = 0
             then (trigger_motion_start h now,
                   self\<lparr>calls := calls self @ [(MotionStart, now)]\<rparr>)
             else (None, self))
      in case raised of
           Some e \<Rightarrow> (Some e, self1)
         | None \<Rightarrow>
            (let self2 = self1\<lparr>motion_counter := motion_counter self1 + 1\<rparr>
             in (None, self2\<lparr>timers := insort (now + motion_timeout self2) (timers self2)\<rparr>)))"

definition priv_trigger_motion_stop :: "host \<Rightarrow> real \<Rightarrow> cam \<Rightarrow> exn option \<times> cam" where
  "priv_trigger_motion_stop h now self =
     (let self1 = self\<lparr>motion_counter := motion_counter self - 1\<rparr>
      in if motion_counter self1 \<le> 0
         then (let self2 = self1\<lparr>motion_counter := 0\<rparr>
               in (trigger_motion_stop h now,
                   self2\<lparr>calls := calls self2 @ [(MotionStop, now)]\<rparr>))
         else (None, self1))"

text \<open>
  When the start callback yields to the loop, \<open>_trigger_motion_start\<close> is suspended at
  its \<open>await\<close> (line 109), after the test of the counter and before the increment
  (line 111), and other steps run meanwhile. \<open>signal_step\<close> is what the loop does with a
  raw signal at the time \<open>now\<close>: the coroutine runs to its end, or, when the callback
  is invoked and yields, up to the \<open>await\<close>, where it is parked with the time at which
  the callback completes and the callback's outcome. \<open>resume_motion_start\<close> is the rest
  of a parked coroutine (lines 110 to 112), run at the time \<open>now\<close> at which it is
  resumed. Nothing follows the \<open>await\<close> in \<open>_trigger_motion_stop\<close>, so a stop callback
  that yields changes nothing in the debouncer.
\<close>

definition resume_motion_start :: "exn option \<Rightarrow> real \<Rightarrow> cam \<Rightarrow> cam" where
  "resume_motion_start outcome now self =
     (case outcome of
        Some e \<Rightarrow> self
      | None \<Rightarrow>
         (let self1 = self\<lparr>motion_counter := motion_counter self + 1\<rparr>
          in self1\<lparr>timers := insort (now + motion_timeout self1) (timers self1)\<rparr>))"

definition signal_step :: "host \<Rightarrow> real \<Rightarrow> cam \<Rightarrow> cam" where
  "signal_step h now self =
     (if motion_counter self = 0 then
        (case start_yields h now of
           None \<Rightarrow> snd (priv_trigger_motion_start h now self)
         | Some delay \<Rightarrow>
            self\<lparr>calls := calls self @ [(MotionStart, now)],
                 parked := insort_key fst (now + delay, trigger_motion_start h now)
                             (parked self)\<rparr>)
      else snd (priv_trigger_motion_start h now self))"

text \<open>
  The event loop. An exception that leaves a task is kept in the task and the loop goes
  on, so only the state a step leaves behind matters. What the loop has pending are the
  stop timers and the parked start coroutines; \<open>earliest\<close> is the one that comes first
  in time (the timer, when both come at the same time), and \<open>wake\<close> runs it.
  \<open>run_until\<close> runs pending work in order of time for as long as it is due.
\<close>

datatype wakeup = Timer real | Resume real "exn option"

fun at_time :: "wakeup \<Rightarrow> real" where
  "at_time (Timer d) = d"
| "at_time (Resume r outcome) = r"

definition earliest :: "cam \<Rightarrow> wakeup option" where
  "earliest self =
     (case (timers self, parked self) of
        ([], []) \<Rightarrow> None
      | (d # _, []) \<Rightarrow> Some (Timer d)
      | ([], (r, outcome) # _) \<Rightarrow> Some (Resume r outcome)
      | (d # _, (r, outcome) # _) \<Rightarrow>
          if d \<le> r then Some (Timer d) else Some (Resume r outcome))"

fun wake :: "host \<Rightarrow> wakeup \<Rightarrow> cam \<Rightarrow> cam" where
  "wake h (Timer d) self =
     snd (priv_trigger_motion_stop h d (self\<lparr>timers := tl (timers self)\<rparr>))"
| "wake h (Resume r outcome) self =
     resume_motion_start outcome r (self\<lparr>parked := tl (parked self)\<rparr>)"

function run_until :: "host \<Rightarrow> (real \<Rightarrow> bool) \<Rightarrow> cam \<Rightarrow> cam" where
  "run_until h due self =
     (case earliest self of
        None \<Rightarrow> self
      | Some w \<Rightarrow> if due (at_time w) then run_until h due (wake h w self) else self)"
  by pat_completeness auto
termination
proof (relation "measure (\<lambda>(h, due, self). length (timers self) + 2 * length (parked self))")
  show "wf (measure (\<lambda>(h, due, self). length (timers self) + 2 * length (parked self)))"
    by simp
next
  fix h :: host and due :: "real \<Rightarrow> bool" and self :: cam and w :: wakeup
  assume e: "earliest self = Some w"
  show "((h, due, wake h w self), (h, due, self))
          \<in> measure (\<lambda>(h, due, self). length (timers self) + 2 * length (parked self))"
  proof (cases w)
    case (Timer d)
    with e have "timers self \<noteq> []"
      by (auto simp: earliest_def split: list.splits prod.splits if_splits)
    with Timer show ?thesis
      by (simp add: priv_trigger_motion_stop_def Let_def)
  next
    case (Resume r outcome)
    with e have "parked self \<noteq> []"
      by (auto simp: earliest_def split: list.splits prod.splits if_splits)
    then have l: "Suc (length (tl (parked self))) = length (parked self)"
      by (cases "parked self") simp_all
    have t: "length (timers (wake h w self)) \<le> Suc (length (timers self))"
      and p: "parked (wake h w self) = tl (parked self)"
      using Resume by (cases outcome; simp add: resume_motion_start_def Let_def)+
    show ?thesis
      using l t p by simp
  qed
qed

text \<open>
  \<open>event_loop\<close> is given the arrival times of the raw motion signals in order: before
  a signal is processed, the pending work that is due is run; after the last signal the
  loop runs until nothing is pending. \<open>tie\<close> says whether pending work due exactly at
  the arrival time of a signal runs before that signal.
\<close>

definition is_due :: "bool \<Rightarrow> real \<Rightarrow> real \<Rightarrow> bool" where
  "is_due tie now d = (if tie then d \<le> now else d < now)"

fun event_loop :: "host \<Rightarrow> bool \<Rightarrow> real list \<Rightarrow> cam \<Rightarrow> cam" where
  "event_loop h tie [] self = run_until h (\<lambda>_. True) self"
| "event_loop h tie (t # ts) self =
     event_loop h tie ts (signal_step h t (run_until h (is_due tie t) self))"

text \<open>A host whose callbacks always return, without yielding.\<close>

definition quiet :: host where
  "quiet = \<lparr>trigger_motion_start = (\<lambda>_. None), trigger_motion_stop = (\<lambda>_. None),
            start_yields = (\<lambda>_. None)\<rparr>"

text \<open>
  A host whose callbacks return, the start callback after two seconds spent waiting (for
  the controller to acknowledge, say).
\<close>

definition slow :: host where
  "slow = \<lparr>trigger_motion_start = (\<lambda>_. None), trigger_motion_stop = (\<lambda>_. None),
           start_yields = (\<lambda>_. Some 2)\<rparr>"


subsection \<open>Arbitrary serialized use of the adapter\<close>

text \<open>
  One step of the adapter's life after construction: a method call by the host, a raw
  motion signal handed to the event loop, or a stop timer firing. Steps run one at a
  time; the result of a call and the exception of a failed step are dropped here, the
  object left behind is kept.
\<close>

datatype action =
    Snapshot device
  | ReadSettings device
  | WriteSettings device "string \<rightharpoonup> pyval"
  | Signal real
  | TimerFired real

fun perform :: "host \<Rightarrow> action \<Rightarrow> cam \<Rightarrow> cam" where
  "perform h (Snapshot dev) self = snd (get_snapshot dev self)"
| "perform h (ReadSettings dev) self = snd (get_video_settings dev self)"
| "perform h (WriteSettings dev options) self = snd (change_video_settings dev options self)"
| "perform h (Signal now) self = snd (priv_trigger_motion_start h now self)"
| "perform h (TimerFired now) self =
     snd (priv_trigger_motion_stop h now (self\<lparr>timers := remove1 now (timers self)\<rparr>))"

fun perform_all :: "host \<Rightarrow> action list \<Rightarrow> cam \<Rightarrow> cam" where
  "perform_all h [] self = self"
| "perform_all h (a # as) self = perform_all h as (perform h a self)"

subsection \<open>Three cameras used as concrete inputs\<close>

text \<open>
  A camera with pan, tilt and zoom; a fixed camera that answers 404 to every PTZ
  request; a host that cannot be reached.
\<close>

definition ptz_camera :: device where
  "ptz_camera =
     \<lparr>capabilities = Inr (),
      status = Inr (reported \<lparr>absoluteZoom = 20, azimuth = 900, elevation = 450\<rparr>),
      absolute = (\<lambda>_. Inr ()),
      picture = Inr ([''JFIF'', '''', ''data''], None)\<rparr>"

definition fixed_camera :: device where
  "fixed_camera =
     \<lparr>capabilities = Inl (HTTPError 404),
      status = Inl (HTTPError 404),
      absolute = (\<lambda>_. Inl (HTTPError 404)),
      picture = Inr ([''JFIF''], None)\<rparr>"

definition unreachable :: device where
  "unreachable =
     \<lparr>capabilities = Inl ConnectionError,
      status = Inl ConnectionError,
      absolute = (\<lambda>_. Inl ConnectionError),
      picture = Inl ConnectionError\<rparr>"

text \<open>
  The exception, if any, that the client raises during a snapshot fetch: while issuing
  the GET, or while the body is streamed.
\<close>

definition fetch_failure :: "device \<Rightarrow> exn option" where
  "fetch_failure dev =
     (case picture dev of Inl e \<Rightarrow> Some e | Inr (chunks, failure) \<Rightarrow> failure)"

text \<open>A host whose callbacks always raise.\<close>

definition failing :: host where
  "failing = \<lparr>trigger_motion_start = (\<lambda>_. Some OSError),
              trigger_motion_stop = (\<lambda>_. Some OSError),
              start_yields = (\<lambda>_. None)\<rparr>"


section \<open>Properties of the unit conversions\<close>

lemma int_of_float_of_int: "int_of_float (real_of_int k) = k"
  by (simp add: int_of_float_def)

lemma round_half_up_of_int: "round_half_up (real_of_int k) = k"
  unfolding round_half_up_def by linarith

lemma tilt_of_exact: "tilt_of b = 9 * b"
proof -
  have "real_of_int (900 * b) / 100 = real_of_int (9 * b)" by simp
  then show ?thesis unfolding tilt_of_def by (simp only: int_of_float_of_int)
qed

lemma pan_of_exact: "pan_of c = 36 * c"
proof -
  have "real_of_int (3600 * c) / 100 = real_of_int (36 * c)" by simp
  then show ?thesis unfolding pan_of_def by (simp only: int_of_float_of_int)
qed

lemma tilt_of_round: "tilt_of b = round_half_up (real_of_int b * 900 / 100)"
proof -
  have "real_of_int b * 900 / 100 = real_of_int (9 * b)" by simp
  then show ?thesis by (simp only: round_half_up_of_int tilt_of_exact)
qed

lemma pan_of_round: "pan_of c = round_half_up (real_of_int c * 3600 / 100)"
proof -
  have "real_of_int c * 3600 / 100 = real_of_int (36 * c)" by simp
  then show ?thesis by (simp only: round_half_up_of_int pan_of_exact)
qed

lemma zoom_of_nonneg:
  assumes "0 \<le> h"
  shows "zoom_of h = \<lfloor>real_of_int h * 40 / 100\<rfloor>"
proof -
  have "0 \<le> real_of_int (40 * h) / 100" using assms by simp
  then have "zoom_of h = \<lfloor>real_of_int (40 * h) / 100\<rfloor>"
    unfolding zoom_of_def int_of_float_def by simp
  then show ?thesis by (simp add: mult.commute)
qed

lemma percent_of_azimuth_nonneg:
  assumes "0 \<le> a"
  shows "percent_of_azimuth a = \<lfloor>real_of_int a * 100 / 3600\<rfloor>"
proof -
  have "0 \<le> real_of_int (100 * a) / 3600" using assms by simp
  then have "percent_of_azimuth a = \<lfloor>real_of_int (100 * a) / 3600\<rfloor>"
    unfolding percent_of_azimuth_def int_of_float_def by simp
  then show ?thesis by (simp add: mult.commute)
qed

lemma int_item_Some: "d k = Some (IntLike n) \<Longrightarrow> int_item d k = Inr n"
  by (simp add: int_item_def)

lemma change_video_settings_sends:
  assumes "ptz_supported self"
    and "options ''brightness'' = Some (IntLike b)"
    and "options ''contrast'' = Some (IntLike c)"
    and "options ''hue'' = Some (IntLike h)"
  shows "change_video_settings dev options self =
           (absolute dev \<lparr>absoluteZoom = zoom_of h, azimuth = pan_of c, elevation = tilt_of b\<rparr>,
            self\<lparr>sent := sent self @
               [PutAbsolute \<lparr>absoluteZoom = zoom_of h, azimuth = pan_of c,
                             elevation = tilt_of b\<rparr>]\<rparr>)"
  using assms by (simp add: change_video_settings_def int_item_Some Let_def)

lemma get_video_settings_reads:
  assumes "ptz_supported self" and "status dev = Inr r"
    and "r ''azimuth'' = Some (IntLike a)" and "r ''absoluteZoom'' = Some (IntLike z)"
  shows "get_video_settings dev self =
           (Inr [''brightness'' \<mapsto> percent_of_azimuth a,
                 ''contrast'' \<mapsto> percent_of_azimuth a,
                 ''hue'' \<mapsto> percent_of_zoom z],
            self\<lparr>sent := sent self @ [GetStatus]\<rparr>)"
  using assms by (simp add: get_video_settings_def int_item_Some Let_def)

text \<open>
  C4, as stated, fails: the write direction does not round half up. For the telemetry
  triple brightness 50, contrast 25, hue 4 the quotient \<open>4 * 40 / 100\<close> is 1.6;
  \<open>int(...)\<close> truncates it and the request sent carries zoom 1, where rounding half up
  gives 2.
\<close>

theorem change_video_settings_truncates_zoom:
  "sent (snd (change_video_settings ptz_camera
        [''brightness'' \<mapsto> IntLike 50, ''contrast'' \<mapsto> IntLike 25, ''hue'' \<mapsto> IntLike 4]
        ((attributes ''/tmp/tmp0'')\<lparr>ptz_supported := True\<rparr>)))
     = [PutAbsolute \<lparr>absoluteZoom = 1, azimuth = 900, elevation = 450\<rparr>]
   \<and> round_half_up (real_of_int 4 * 40 / 100) = 2"
  by (simp add: change_video_settings_def int_item_def attributes_def tilt_of_exact pan_of_exact
      zoom_of_def int_of_float_def round_half_up_def Let_def)

text \<open>
  C4, amended: for integer brightness, contrast and hue in the range 0 to 100, a camera
  with PTZ support is sent elevation \<open>round(brightness * 900 / 100)\<close> and azimuth
  \<open>round(contrast * 3600 / 100)\<close> (both quotients are whole numbers, so no rounding
  takes place), and zoom \<open>floor(hue * 40 / 100)\<close>: the fraction is cut off, not rounded
  half up.
\<close>

theorem change_video_settings_units:
  assumes "ptz_supported self"
    and "options ''brightness'' = Some (IntLike b)"
    and "options ''contrast'' = Some (IntLike c)"
    and "options ''hue'' = Some (IntLike h)"
    and "0 \<le> b \<and> b \<le> 100" and "0 \<le> c \<and> c \<le> 100" and "0 \<le> h \<and> h \<le> 100"
  shows "sent (snd (change_video_settings dev options self)) = sent self @
           [PutAbsolute \<lparr>absoluteZoom = \<lfloor>real_of_int h * 40 / 100\<rfloor>,
                         azimuth = round_half_up (real_of_int c * 3600 / 100),
                         elevation = round_half_up (real_of_int b * 900 / 100)\<rparr>]"
  using assms
  by (simp add: change_video_settings_sends zoom_of_nonneg pan_of_round tilt_of_round
        del: times_divide_eq_left)

text \<open>The example of the specification: 50, 25, 100 is sent as 450, 900, 40.\<close>

theorem change_video_settings_units_witness:
  "sent (snd (change_video_settings ptz_camera
        [''brightness'' \<mapsto> IntLike 50, ''contrast'' \<mapsto> IntLike 25, ''hue'' \<mapsto> IntLike 100]
        ((attributes ''/tmp/tmp0'')\<lparr>ptz_supported := True\<rparr>)))
     = [PutAbsolute \<lparr>absoluteZoom = 40, azimuth = 900, elevation = 450\<rparr>]"
  using change_video_settings_units
        [of "(attributes ''/tmp/tmp0'')\<lparr>ptz_supported := True\<rparr>"
        "[''brightness'' \<mapsto> IntLike 50, ''contrast'' \<mapsto> IntLike 25, ''hue'' \<mapsto> IntLike 100]"
        50 25 100 ptz_camera]
  by (simp add: attributes_def round_half_up_def)

text \<open>
  C7: in the read direction both \<open>brightness\<close> and \<open>contrast\<close> are computed from the
  \<open>azimuth\<close> entry of the status by one formula, which on an azimuth that is not negative
  (the range of the device is 0 to 3600) is \<open>floor(azimuth * 100 / 3600)\<close>; the two
  are therefore equal. The \<open>elevation\<close> entry is never read: changing or removing it
  changes nothing in the call.
\<close>

theorem get_video_settings_azimuth_only:
  assumes "ptz_supported self" and "status dev = Inr r"
    and "r ''azimuth'' = Some (IntLike a)" and "r ''absoluteZoom'' = Some (IntLike z)"
  shows "(\<exists>t. fst (get_video_settings dev self) = Inr t
            \<and> t ''brightness'' = Some (percent_of_azimuth a)
            \<and> t ''contrast'' = Some (percent_of_azimuth a)
            \<and> t ''brightness'' = t ''contrast'')
       \<and> (0 \<le> a \<longrightarrow> percent_of_azimuth a = \<lfloor>real_of_int a * 100 / 3600\<rfloor>)
       \<and> get_video_settings (dev\<lparr>status := Inr (r(''elevation'' := v))\<rparr>) self
           = get_video_settings dev self"
proof -
  have 1: "get_video_settings dev self =
           (Inr [''brightness'' \<mapsto> percent_of_azimuth a,
                 ''contrast'' \<mapsto> percent_of_azimuth a,
                 ''hue'' \<mapsto> percent_of_zoom z],
            self\<lparr>sent := sent self @ [GetStatus]\<rparr>)"
    using assms by (rule get_video_settings_reads)
  have 2: "get_video_settings (dev\<lparr>status := Inr (r(''elevation'' := v))\<rparr>) self =
           (Inr [''brightness'' \<mapsto> percent_of_azimuth a,
                 ''contrast'' \<mapsto> percent_of_azimuth a,
                 ''hue'' \<mapsto> percent_of_zoom z],
            self\<lparr>sent := sent self @ [GetStatus]\<rparr>)"
    using assms
      get_video_settings_reads [of self "dev\<lparr>status := Inr (r(''elevation'' := v))\<rparr>"
        "r(''elevation'' := v)" a z]
    by simp
  show ?thesis
    unfolding 1 2 by (simp add: percent_of_azimuth_nonneg)
qed

theorem get_video_settings_azimuth_only_witness:
  "(\<exists>t. fst (get_video_settings ptz_camera
               ((attributes ''/tmp/tmp0'')\<lparr>ptz_supported := True\<rparr>)) = Inr t
      \<and> t ''brightness'' = Some 25 \<and> t ''contrast'' = Some 25)
   \<and> (0::int) \<le> 900 \<and> percent_of_azimuth 900 = \<lfloor>real_of_int 900 * 100 / 3600\<rfloor>"
proof -
  have p: "percent_of_azimuth 900 = 25"
    by (simp add: percent_of_azimuth_def int_of_float_def)
  have h1: "ptz_supported ((attributes ''/tmp/tmp0'')\<lparr>ptz_supported := True\<rparr>)" by simp
  have h2: "status ptz_camera
              = Inr (reported \<lparr>absoluteZoom = 20, azimuth = 900, elevation = 450\<rparr>)"
    by (simp add: ptz_camera_def)
  have h3: "reported \<lparr>absoluteZoom = 20, azimuth = 900, elevation = 450\<rparr> ''azimuth''
              = Some (IntLike 900)"
    by (simp add: reported_def)
  have h4: "reported \<lparr>absoluteZoom = 20, azimuth = 900, elevation = 450\<rparr> ''absoluteZoom''
              = Some (IntLike 20)"
    by (simp add: reported_def)
  have e: "(0::int) \<le> 900 \<and> (25::int) = \<lfloor>real_of_int 900 * 100 / 3600\<rfloor>" by simp
  from get_video_settings_azimuth_only [where v = None, OF h1 h2 h3 h4] e show ?thesis
    unfolding p by blast
qed

lemma zoom_roundtrip:
  assumes "5 dvd h"
  shows "percent_of_zoom (zoom_of h) = h"
proof -
  from assms obtain k where k: "h = 5 * k" by (auto simp: dvd_def)
  have a: "real_of_int (40 * h) / 100 = real_of_int (2 * k)" using k by simp
  have z: "zoom_of h = 2 * k" unfolding zoom_of_def a by (rule int_of_float_of_int)
  have b: "real_of_int (100 * (2 * k)) / 40 = real_of_int (5 * k)" by simp
  show ?thesis unfolding z percent_of_zoom_def b using k by (simp only: int_of_float_of_int)
qed

lemma zoom_roundtrip_spec:
  assumes "5 dvd h"
  shows "\<lfloor>real_of_int (round_half_up (real_of_int h * 40 / 100)) * 100 / 40\<rfloor> = h"
proof -
  from assms obtain k where k: "h = 5 * k" by (auto simp: dvd_def)
  have a: "real_of_int h * 40 / 100 = real_of_int (2 * k)" using k by simp
  have b: "real_of_int (2 * k) * 100 / 40 = real_of_int (5 * k)" by simp
  show ?thesis unfolding a round_half_up_of_int b using k by (simp only: floor_of_int)
qed

text \<open>
  C8: for a hue in the range 0 to 100 that is a multiple of 5, writing the settings and
  reading them back from a camera that reports the position it was moved to gives the
  same hue; so does the formula of the specification,
  \<open>floor(round(hue * 40 / 100) * 100 / 40)\<close>. Nothing is claimed for brightness and
  contrast.
\<close>

theorem hue_round_trip:
  assumes "0 \<le> h \<and> h \<le> 100" and "5 dvd h"
    and "ptz_supported self" and "ptz_supported self'"
    and "options ''brightness'' = Some (IntLike b)"
    and "options ''contrast'' = Some (IntLike c)"
    and "options ''hue'' = Some (IntLike h)"
  shows "\<exists>req t.
           sent (snd (change_video_settings dev options self)) = sent self @ [PutAbsolute req]
         \<and> fst (get_video_settings (dev\<lparr>status := Inr (reported req)\<rparr>) self') = Inr t
         \<and> t ''hue'' = Some h
         \<and> \<lfloor>real_of_int (round_half_up (real_of_int h * 40 / 100)) * 100 / 40\<rfloor> = h"
proof -
  let ?req = "\<lparr>absoluteZoom = zoom_of h, azimuth = pan_of c, elevation = tilt_of b\<rparr>"
  let ?t = "[''brightness'' \<mapsto> percent_of_azimuth (pan_of c),
             ''contrast'' \<mapsto> percent_of_azimuth (pan_of c),
             ''hue'' \<mapsto> percent_of_zoom (zoom_of h)]"
  have w: "sent (snd (change_video_settings dev options self)) = sent self @ [PutAbsolute ?req]"
    using assms by (simp add: change_video_settings_sends)
  have r: "get_video_settings (dev\<lparr>status := Inr (reported ?req)\<rparr>) self' =
           (Inr ?t, self'\<lparr>sent := sent self' @ [GetStatus]\<rparr>)"
    using assms
      get_video_settings_reads [of self' "dev\<lparr>status := Inr (reported ?req)\<rparr>"
        "reported ?req" "pan_of c" "zoom_of h"]
    by (simp add: reported_def)
  show ?thesis
    using w r zoom_roundtrip [OF assms(2)] zoom_roundtrip_spec [OF assms(2)]
    by (intro exI [of _ ?req] exI [of _ ?t]) simp
qed

text \<open>The example of the specification: hue 50 is written as zoom 20 and read as 50.\<close>

theorem hue_round_trip_witness:
  "(0::int) \<le> 50 \<and> (50::int) \<le> 100 \<and> (5::int) dvd 50 \<and>
   (\<exists>req t.
     sent (snd (change_video_settings ptz_camera
        [''brightness'' \<mapsto> IntLike 50, ''contrast'' \<mapsto> IntLike 25, ''hue'' \<mapsto> IntLike 50]
        ((attributes ''/tmp/tmp0'')\<lparr>ptz_supported := True\<rparr>)))
       = sent ((attributes ''/tmp/tmp0'')\<lparr>ptz_supported := True\<rparr>) @ [PutAbsolute req]
   \<and> fst (get_video_settings (ptz_camera\<lparr>status := Inr (reported req)\<rparr>)
        ((attributes ''/tmp/tmp0'')\<lparr>ptz_supported := True\<rparr>)) = Inr t
   \<and> t ''hue'' = Some 50)"
proof -
  have h1: "(0::int) \<le> 50 \<and> (50::int) \<le> 100" by simp
  have h2: "(5::int) dvd 50" by simp
  have h3: "ptz_supported ((attributes ''/tmp/tmp0'')\<lparr>ptz_supported := True\<rparr>)" by simp
  have h4: "[''brightness'' \<mapsto> IntLike 50, ''contrast'' \<mapsto> IntLike 25, ''hue'' \<mapsto> IntLike 50]
              ''brightness'' = Some (IntLike 50)" by simp
  have h5: "[''brightness'' \<mapsto> IntLike 50, ''contrast'' \<mapsto> IntLike 25, ''hue'' \<mapsto> IntLike 50]
              ''contrast'' = Some (IntLike 25)" by simp
  have h6: "[''brightness'' \<mapsto> IntLike 50, ''contrast'' \<mapsto> IntLike 25, ''hue'' \<mapsto> IntLike 50]
              ''hue'' = Some (IntLike 50)" by simp
  from hue_round_trip [OF h1 h2 h3 h3 h4 h5 h6, of ptz_camera] h1 h2 show ?thesis
    by blast
qed

section \<open>Attributes that no step changes\<close>

lemma ptz_supported_start [simp]:
  "ptz_supported (snd (priv_trigger_motion_start h now self)) = ptz_supported self"
  by (simp add: priv_trigger_motion_start_def Let_def split: option.splits prod.splits)

lemma ptz_supported_stop [simp]:
  "ptz_supported (snd (priv_trigger_motion_stop h now self)) = ptz_supported self"
  by (simp add: priv_trigger_motion_stop_def Let_def)

lemma ptz_supported_snapshot [simp]:
  "ptz_supported (snd (get_snapshot dev self)) = ptz_supported self"
  by (simp add: get_snapshot_def Let_def split: sum.splits prod.splits option.splits)

lemma ptz_supported_read [simp]:
  "ptz_supported (snd (get_video_settings dev self)) = ptz_supported self"
  by (simp add: get_video_settings_def Let_def split: sum.splits)

lemma ptz_supported_write [simp]:
  "ptz_supported (snd (change_video_settings dev options self)) = ptz_supported self"
  by (simp add: change_video_settings_def Let_def split: sum.splits)

lemma ptz_supported_perform: "ptz_supported (perform h a self) = ptz_supported self"
  by (cases a) simp_all

lemma ptz_supported_perform_all: "ptz_supported (perform_all h acts self) = ptz_supported self"
  by (induction acts arbitrary: self) (simp_all add: ptz_supported_perform)

lemma snapshot_dir_start [simp]:
  "snapshot_dir (snd (priv_trigger_motion_start h now self)) = snapshot_dir self"
  by (simp add: priv_trigger_motion_start_def Let_def split: option.splits prod.splits)

lemma snapshot_dir_stop [simp]:
  "snapshot_dir (snd (priv_trigger_motion_stop h now self)) = snapshot_dir self"
  by (simp add: priv_trigger_motion_stop_def Let_def)

lemma snapshot_dir_snapshot [simp]:
  "snapshot_dir (snd (get_snapshot dev self)) = snapshot_dir self"
  by (simp add: get_snapshot_def Let_def split: sum.splits prod.splits option.splits)

lemma snapshot_dir_read [simp]:
  "snapshot_dir (snd (get_video_settings dev self)) = snapshot_dir self"
  by (simp add: get_video_settings_def Let_def split: sum.splits)

lemma snapshot_dir_write [simp]:
  "snapshot_dir (snd (change_video_settings dev options self)) = snapshot_dir self"
  by (simp add: change_video_settings_def Let_def split: sum.splits)

lemma snapshot_dir_perform: "snapshot_dir (perform h a self) = snapshot_dir self"
  by (cases a) simp_all

lemma snapshot_dir_perform_all: "snapshot_dir (perform_all h acts self) = snapshot_dir self"
  by (induction acts arbitrary: self) (simp_all add: snapshot_dir_perform)

section \<open>Construction, the capability probe and snapshots\<close>

lemma init_cases:
  "init tmpdir dev =
     (case capabilities dev of
        Inr _ \<Rightarrow> Inr ((attributes tmpdir)\<lparr>sent := [GetCapabilities], ptz_supported := True\<rparr>)
      | Inl e \<Rightarrow> if is_HTTPError e
                 then Inr ((attributes tmpdir)\<lparr>sent := [GetCapabilities], ptz_supported := False\<rparr>)
                 else Inl e)"
  by (simp add: init_def check_ptz_support_def attributes_def Let_def split: sum.splits)

lemma init_snapshot_dir: "init tmpdir dev = Inr self \<Longrightarrow> snapshot_dir self = tmpdir"
  by (auto simp: init_cases attributes_def split: sum.splits if_splits)

lemma init_debouncer:
  "init tmpdir dev = Inr self \<Longrightarrow>
     motion_counter self = 0 \<and> timers self = [] \<and> calls self = [] \<and> motion_timeout self = 5"
  by (auto simp: init_cases attributes_def split: sum.splits if_splits)

lemma write_chunks_concat: "write_chunks chunks f = f @ concat chunks"
  by (induction chunks arbitrary: f) simp_all

text \<open>
  C5, as stated, fails: a failed fetch is not surfaced as the retryable error type.
  Against a host that cannot be reached the client raises \<open>ConnectionError\<close>, and that
  is what \<open>get_snapshot\<close> raises; \<open>RetryableError\<close> is imported by the file and never
  used.
\<close>

theorem get_snapshot_error_not_retryable:
  "fst (get_snapshot unreachable (attributes ''/tmp/tmp0'')) = Inl ConnectionError
   \<and> fst (get_snapshot unreachable (attributes ''/tmp/tmp0'')) \<noteq> Inl RetryableError"
  by (simp add: get_snapshot_def unreachable_def Let_def)

text \<open>
  C5, amended: every call of \<open>get_snapshot\<close> issues exactly one request, and every
  failure of the fetch, while issuing the GET or while streaming the body, reaches the
  caller as the very exception the client raised.
\<close>

theorem get_snapshot_single_request:
  "sent (snd (get_snapshot dev self)) = sent self @ [GetPicture]
   \<and> (fetch_failure dev = Some e \<longrightarrow> fst (get_snapshot dev self) = Inl e)"
  by (simp add: get_snapshot_def fetch_failure_def Let_def
        split: sum.splits prod.splits option.splits)

theorem get_snapshot_single_request_witness:
  "fetch_failure unreachable = Some ConnectionError
   \<and> fst (get_snapshot unreachable (attributes ''/tmp/tmp0'')) = Inl ConnectionError
   \<and> sent (snd (get_snapshot unreachable (attributes ''/tmp/tmp0''))) = [GetPicture]"
proof -
  have h: "fetch_failure unreachable = Some ConnectionError"
    by (simp add: fetch_failure_def unreachable_def)
  from get_snapshot_single_request [of unreachable "attributes ''/tmp/tmp0''" ConnectionError] h
  show ?thesis
    by (simp add: attributes_def)
qed

text \<open>
  C6: when the capability probe raises \<open>HTTPError\<close> (a client-error status), the
  constructor returns an adapter with \<open>ptz_supported\<close> false. From then on, whatever
  steps the adapter has gone through, \<open>get_video_settings\<close> returns the empty
  dictionary and \<open>change_video_settings\<close> returns normally for every \<open>options\<close>
  argument, and neither touches the object: no request is sent.
\<close>

theorem no_ptz_operations_are_noops:
  assumes "capabilities dev = Inl (HTTPError code)"
  shows "\<exists>self0. init tmpdir dev = Inr self0 \<and> \<not> ptz_supported self0
           \<and> sent self0 = [GetCapabilities]
           \<and> get_video_settings dev' (perform_all h acts self0)
               = (Inr Map.empty, perform_all h acts self0)
           \<and> change_video_settings dev' options (perform_all h acts self0)
               = (Inr (), perform_all h acts self0)"
proof -
  let ?made = "(attributes tmpdir)\<lparr>sent := [GetCapabilities], ptz_supported := False\<rparr>"
  have i: "init tmpdir dev = Inr ?made" using assms by (simp add: init_cases)
  have p: "\<not> ptz_supported (perform_all h acts ?made)"
    by (simp add: ptz_supported_perform_all)
  show ?thesis
    using i p by (simp add: get_video_settings_def change_video_settings_def)
qed

theorem no_ptz_operations_are_noops_witness:
  "capabilities fixed_camera = Inl (HTTPError 404) \<and>
   (\<exists>self0. init ''/tmp/tmp0'' fixed_camera = Inr self0 \<and> \<not> ptz_supported self0
      \<and> get_video_settings fixed_camera self0 = (Inr Map.empty, self0)
      \<and> change_video_settings fixed_camera Map.empty self0 = (Inr (), self0))"
proof -
  have h: "capabilities fixed_camera = Inl (HTTPError 404)" by (simp add: fixed_camera_def)
  from no_ptz_operations_are_noops
         [OF h, of "''/tmp/tmp0''" fixed_camera quiet "[]" Map.empty] h
  show ?thesis
    by auto
qed

text \<open>
  C9: when the probe raises, only an \<open>HTTPError\<close> is taken as "no PTZ"; any other
  exception leaves \<open>check_ptz_support\<close> and the constructor, so no adapter is built.
\<close>

theorem probe_catches_only_HTTPError:
  assumes "capabilities dev = Inl e"
  shows "if is_HTTPError e
         then \<exists>self. init tmpdir dev = Inr self \<and> \<not> ptz_supported self
         else fst (check_ptz_support dev (attributes tmpdir)) = Inl e \<and> init tmpdir dev = Inl e"
  using assms by (simp add: init_cases check_ptz_support_def Let_def)

theorem probe_catches_only_HTTPError_witness:
  "capabilities unreachable = Inl ConnectionError \<and> \<not> is_HTTPError ConnectionError
   \<and> fst (check_ptz_support unreachable (attributes ''/tmp/tmp0'')) = Inl ConnectionError
   \<and> init ''/tmp/tmp0'' unreachable = Inl ConnectionError"
proof -
  have h: "capabilities unreachable = Inl ConnectionError" by (simp add: unreachable_def)
  from probe_catches_only_HTTPError [OF h, of "''/tmp/tmp0''"] h show ?thesis by simp
qed

text \<open>
  C10: at any point of the adapter's life a successful \<open>get_snapshot\<close> returns the same
  path, \<open>screen.jpg\<close> in the directory made by the constructor, and the file then holds
  the body of this call alone, whatever it held before.
\<close>

theorem get_snapshot_fixed_path:
  assumes "init tmpdir dev0 = Inr self0"
    and "self = perform_all h acts self0"
    and "fst (get_snapshot dev self) = Inr p"
  shows "p = Path tmpdir ''screen.jpg''
       \<and> (\<exists>chunks. picture dev = Inr (chunks, None)
             \<and> files (snd (get_snapshot dev self)) p = Some (concat chunks))"
proof -
  have d: "snapshot_dir self = tmpdir"
    using assms(1,2) by (simp add: snapshot_dir_perform_all init_snapshot_dir)
  show ?thesis
    using assms(3) d
    by (auto simp: get_snapshot_def Let_def write_chunks_concat
             split: sum.splits prod.splits option.splits)
qed

theorem get_snapshot_fixed_path_witness:
  "init ''/tmp/tmp0'' ptz_camera
     = Inr ((attributes ''/tmp/tmp0'')\<lparr>sent := [GetCapabilities], ptz_supported := True\<rparr>)
   \<and> fst (get_snapshot ptz_camera (perform_all quiet [Snapshot fixed_camera]
        ((attributes ''/tmp/tmp0'')\<lparr>sent := [GetCapabilities], ptz_supported := True\<rparr>)))
       = Inr ''/tmp/tmp0/screen.jpg''
   \<and> files (snd (get_snapshot ptz_camera (perform_all quiet [Snapshot fixed_camera]
        ((attributes ''/tmp/tmp0'')\<lparr>sent := [GetCapabilities], ptz_supported := True\<rparr>))))
        ''/tmp/tmp0/screen.jpg'' = Some ''JFIFdata''"
proof -
  let ?made = "(attributes ''/tmp/tmp0'')\<lparr>sent := [GetCapabilities], ptz_supported := True\<rparr>"
  let ?later = "perform_all quiet [Snapshot fixed_camera] ?made"
  have h1: "init ''/tmp/tmp0'' ptz_camera = Inr ?made"
    by (simp add: init_cases ptz_camera_def)
  have h2: "?later = perform_all quiet [Snapshot fixed_camera] ?made" by (rule refl)
  have h3: "fst (get_snapshot ptz_camera ?later) = Inr ''/tmp/tmp0/screen.jpg''"
    by (simp add: get_snapshot_def Let_def ptz_camera_def Path_def snapshot_dir_perform_all
          attributes_def del: perform_all.simps)
  have pic: "picture ptz_camera = Inr ([''JFIF'', '''', ''data''], None)"
    by (simp add: ptz_camera_def)
  from get_snapshot_fixed_path [OF h1 h2 h3] h1 h3 pic show ?thesis
    by (auto simp del: perform_all.simps)
qed

section \<open>The motion debouncer\<close>

subsection \<open>Single steps\<close>





lemma start_raises:
  "motion_counter self = 0 \<Longrightarrow> trigger_motion_start h t = Some e \<Longrightarrow>
     priv_trigger_motion_start h t self =
       (Some e, self\<lparr>calls := calls self @ [(MotionStart, t)]\<rparr>)"
  by (simp add: priv_trigger_motion_start_def Let_def)

subsection \<open>Running pending work\<close>

declare run_until.simps [simp del]






subsection \<open>A burst of signals\<close>












text \<open>
  Two more runs that the hypotheses of \<open>burst_one_start_one_stop\<close> exclude. When the
  start callback raises, the counter is never incremented: every signal of the burst
  invokes the callback and no stop follows. When the callback of a single signal yields,
  the stop timer is scheduled at the resumption, and the stop comes later by the time
  the callback took.
\<close>

lemma raising_start_fires_every_signal:
  "calls (event_loop failing True [0, 3, 7]
        ((attributes ''/tmp/tmp0'')\<lparr>sent := [GetCapabilities], ptz_supported := True\<rparr>))
      = [(MotionStart, 0), (MotionStart, 3), (MotionStart, 7)]"
  by (simp add: attributes_def failing_def signal_step_def resume_motion_start_def is_due_def
        priv_trigger_motion_start_def priv_trigger_motion_stop_def earliest_def
        run_until.simps Let_def)

lemma single_signal_suspended_stop_late:
  "calls (event_loop slow True [0]
        ((attributes ''/tmp/tmp0'')\<lparr>sent := [GetCapabilities], ptz_supported := True\<rparr>))
      = [(MotionStart, 0), (MotionStop, 7)]"
  by (simp add: attributes_def slow_def signal_step_def resume_motion_start_def is_due_def
        priv_trigger_motion_start_def priv_trigger_motion_stop_def earliest_def
        run_until.simps Let_def)

subsection \<open>The counter under arbitrary steps\<close>

lemma motion_counter_snapshot [simp]:
  "motion_counter (snd (get_snapshot dev self)) = motion_counter self"
  by (simp add: get_snapshot_def Let_def split: sum.splits prod.splits option.splits)

lemma motion_counter_read [simp]:
  "motion_counter (snd (get_video_settings dev self)) = motion_counter self"
  by (simp add: get_video_settings_def Let_def split: sum.splits)

lemma motion_counter_write [simp]:
  "motion_counter (snd (change_video_settings dev options self)) = motion_counter self"
  by (simp add: change_video_settings_def Let_def split: sum.splits)

lemma motion_counter_start:
  "motion_counter (snd (priv_trigger_motion_start h now self))
     = (if motion_counter self = 0 \<and> trigger_motion_start h now \<noteq> None
        then motion_counter self else motion_counter self + 1)"
  by (auto simp: priv_trigger_motion_start_def Let_def split: option.splits)

lemma motion_counter_stop:
  "motion_counter (snd (priv_trigger_motion_stop h now self)) = max 0 (motion_counter self - 1)"
  by (simp add: priv_trigger_motion_stop_def Let_def)

lemma perform_keeps_nonneg:
  "0 \<le> motion_counter self \<Longrightarrow> 0 \<le> motion_counter (perform h a self)"
  by (cases a) (simp_all add: motion_counter_start motion_counter_stop)

lemma perform_all_keeps_nonneg:
  "0 \<le> motion_counter self \<Longrightarrow> 0 \<le> motion_counter (perform_all h acts self)"
  by (induction acts arbitrary: self) (simp_all add: perform_keeps_nonneg)

text \<open>
  C3: after construction, whatever steps are run one after another (signals, timer
  firings, and method calls of the host, in any order and any number), the counter is
  not negative after any of them. Every serialized interleaving in which each timer
  firing follows the signal that scheduled it is such a sequence.
\<close>

theorem motion_counter_never_negative:
  assumes "init tmpdir dev = Inr self"
  shows "0 \<le> motion_counter (perform_all h (take n acts) self)"
  using init_debouncer [OF assms] by (simp add: perform_all_keeps_nonneg)

theorem motion_counter_never_negative_witness:
  "init ''/tmp/tmp0'' ptz_camera
     = Inr ((attributes ''/tmp/tmp0'')\<lparr>sent := [GetCapabilities], ptz_supported := True\<rparr>)
   \<and> 0 \<le> motion_counter (perform_all quiet [Signal 0, TimerFired 5, TimerFired 5, Signal 6]
             ((attributes ''/tmp/tmp0'')\<lparr>sent := [GetCapabilities], ptz_supported := True\<rparr>))"
proof -
  let ?made = "(attributes ''/tmp/tmp0'')\<lparr>sent := [GetCapabilities], ptz_supported := True\<rparr>"
  have h1: "init ''/tmp/tmp0'' ptz_camera = Inr ?made"
    by (simp add: init_cases ptz_camera_def)
  from motion_counter_never_negative [OF h1, of quiet 4 "[Signal 0, TimerFired 5, TimerFired 5, Signal 6]"] h1
  show ?thesis by (simp del: perform_all.simps)
qed

text \<open>
  C2, as stated, fails in the start path: the increment and the scheduling stand after
  the \<open>await\<close>. With an idle debouncer and a start callback that raises, the exception
  leaves \<open>_trigger_motion_start\<close>, the counter is still 0 and no timer is pending.
\<close>

theorem raising_start_skips_counter_update:
  "fst (priv_trigger_motion_start failing 0 (attributes ''/tmp/tmp0'')) = Some OSError
   \<and> motion_counter (attributes ''/tmp/tmp0'') = 0
   \<and> motion_counter (snd (priv_trigger_motion_start failing 0 (attributes ''/tmp/tmp0''))) = 0
   \<and> timers (snd (priv_trigger_motion_start failing 0 (attributes ''/tmp/tmp0''))) = []"
  by (simp add: priv_trigger_motion_start_def failing_def attributes_def Let_def)

text \<open>
  C2, amended: in the stop path the counter is decremented (and clamped at 0) whether
  or not \<open>trigger_motion_stop\<close> raises. In the start path the counter is incremented and
  the stop timer scheduled when the callback is not invoked or returns; when the callback
  is invoked and raises, the exception is passed on and counter and timers are left as
  they were, so counter and pending timers stay balanced.
\<close>

theorem counter_update_and_callbacks:
  "(case priv_trigger_motion_start h now self of (raised, self') \<Rightarrow>
      if motion_counter self = 0 \<and> trigger_motion_start h now \<noteq> None
      then raised = trigger_motion_start h now
           \<and> motion_counter self' = motion_counter self \<and> timers self' = timers self
      else raised = None
           \<and> motion_counter self' = motion_counter self + 1
           \<and> timers self' = insort (now + motion_timeout self) (timers self))
   \<and> (case priv_trigger_motion_stop h now self of (raised, self') \<Rightarrow>
        motion_counter self' = max 0 (motion_counter self - 1)
        \<and> raised = (if motion_counter self \<le> 1 then trigger_motion_stop h now else None))"
  by (auto simp: priv_trigger_motion_start_def priv_trigger_motion_stop_def Let_def
       split: option.splits)

theorem counter_update_and_callbacks_witness:
  "fst (priv_trigger_motion_stop failing 5
          ((attributes ''/tmp/tmp0'')\<lparr>motion_counter := 1\<rparr>)) = Some OSError
   \<and> motion_counter (snd (priv_trigger_motion_stop failing 5
          ((attributes ''/tmp/tmp0'')\<lparr>motion_counter := 1\<rparr>))) = 0"
  using counter_update_and_callbacks [where h = failing and now = 5
          and self = "(attributes ''/tmp/tmp0'')\<lparr>motion_counter := 1\<rparr>"]
  by (simp add: failing_def split: prod.splits)

end
